theory Spec2Isabelle
  imports Main "HOL-Library.Word"
begin

section \<open>Values of the host language\<close>

text \<open>
  A \<^verbatim>\<open>Date\<close> object holds either a time value in milliseconds since the epoch or
  the not-a-number time value (an "Invalid Date").  \<^verbatim>\<open>getTime()\<close> yields a number,
  modelled as \<open>int option\<close> with \<open>None\<close> for NaN.
\<close>

datatype jsdate = InvalidDate | Date int

fun getTime :: "jsdate \<Rightarrow> int option" where
  "getTime InvalidDate = None"
| "getTime (Date t) = Some t"

text \<open>Subtraction of numbers: NaN is absorbing.\<close>

fun num_sub :: "int option \<Rightarrow> int option \<Rightarrow> int option" where
  "num_sub (Some a) (Some b) = Some (a - b)"
| "num_sub _ _ = None"

text \<open>The comparisons \<^verbatim>\<open>x <= 0\<close> and \<^verbatim>\<open>a > b\<close>: every comparison with NaN is false.\<close>

fun num_le_zero :: "int option \<Rightarrow> bool" where
  "num_le_zero (Some d) = (d \<le> 0)"
| "num_le_zero None = False"

fun date_gt :: "jsdate \<Rightarrow> jsdate \<Rightarrow> bool" where
  "date_gt (Date a) (Date b) = (a > b)"
| "date_gt _ _ = False"

text \<open>
  Values produced by \<^verbatim>\<open>JSON.parse\<close>, plus \<^verbatim>\<open>undefined\<close> (the value of a missing
  property).  Numbers are the integral ones.
\<close>

datatype jsval =
    JUndefined
  | JNull
  | JBool bool
  | JNum int
  | JStr string
  | JArr "jsval list"
  | JObj "(string \<times> jsval) list"

text \<open>
  Property read \<^verbatim>\<open>data.key\<close>: a \<^verbatim>\<open>TypeError\<close> on \<^verbatim>\<open>null\<close> and \<^verbatim>\<open>undefined\<close>,
  the member of an object, and \<^verbatim>\<open>undefined\<close> where there is no such property.
\<close>

datatype js_exception = TypeError | RangeError | SyntaxError

fun get_prop :: "jsval \<Rightarrow> string \<Rightarrow> js_exception + jsval" where
  "get_prop JUndefined k = Inl TypeError"
| "get_prop JNull k = Inl TypeError"
| "get_prop (JObj kvs) k = Inr (case map_of kvs k of None \<Rightarrow> JUndefined | Some v \<Rightarrow> v)"
| "get_prop v k = Inr JUndefined"

text \<open>
  Conversion of a parsed value to a primitive, as a template literal and the \<^verbatim>\<open>Date\<close>
  constructor do it, calls the value's \<^verbatim>\<open>toString\<close>.  A parsed object with an own
  property \<^verbatim>\<open>toString\<close> hides the inherited method behind a value that cannot be called
  (and \<^verbatim>\<open>valueOf\<close>, own or inherited, yields no primitive), so the conversion throws a
  \<^verbatim>\<open>TypeError\<close>.  An array is joined from the conversions of its elements, so it throws
  when one of them does.  Every other value converts.
\<close>

fun conversion_throws :: "jsval \<Rightarrow> bool"
  and any_conversion_throws :: "jsval list \<Rightarrow> bool" where
  "conversion_throws (JObj kvs) = (map_of kvs ''toString'' \<noteq> None)"
| "conversion_throws (JArr xs) = any_conversion_throws xs"
| "conversion_throws JUndefined = False"
| "conversion_throws JNull = False"
| "conversion_throws (JBool b) = False"
| "conversion_throws (JNum n) = False"
| "conversion_throws (JStr x) = False"
| "any_conversion_throws [] = False"
| "any_conversion_throws (x # xs) = (conversion_throws x \<or> any_conversion_throws xs)"

text \<open>
  The conversions the program leaves to the platform: \<^verbatim>\<open>Date.prototype.toISOString\<close> on
  a valid time value, the date-string reader behind \<^verbatim>\<open>new Date(string)\<close> (\<open>None\<close> is
  NaN), and the string an array or object is converted to, when the conversion does not
  throw, before it is read as a date.
\<close>

record platform =
  toISOString :: "int \<Rightarrow> string"
  Date_parse :: "string \<Rightarrow> int option"
  ToPrimitive :: "jsval \<Rightarrow> string"

definition of_time :: "int option \<Rightarrow> jsdate" where
  "of_time n = (case n of None \<Rightarrow> InvalidDate | Some t \<Rightarrow> Date t)"

text \<open>\<^verbatim>\<open>TimeClip\<close>: a time value beyond 8.64e15 ms in magnitude is NaN.\<close>

definition TimeClip :: "int \<Rightarrow> jsdate" where
  "TimeClip n = (if \<bar>n\<bar> \<le> 8640000000000000 then Date n else InvalidDate)"

text \<open>
  The constructor \<^verbatim>\<open>new Date(v)\<close> with one argument.  An array or object is converted
  to a primitive first, which can throw.
\<close>

fun newDate :: "platform \<Rightarrow> jsval \<Rightarrow> js_exception + jsdate" where
  "newDate P JUndefined = Inr InvalidDate"
| "newDate P JNull = Inr (Date 0)"
| "newDate P (JBool b) = Inr (Date (if b then 1 else 0))"
| "newDate P (JNum n) = Inr (TimeClip n)"
| "newDate P (JStr s) = Inr (of_time (Date_parse P s))"
| "newDate P v =
     (if conversion_throws v then Inl TypeError
      else Inr (of_time (Date_parse P (ToPrimitive P v))))"

section \<open>The plugin's state\<close>

text \<open>
  What is stored under the key \<^verbatim>\<open>obsidian-time-notifier\<close> is a text.  The program only
  tests it for truthiness and hands it to \<^verbatim>\<open>JSON.parse\<close>, so the text is represented
  by what these two make of it: the empty text (falsy), a non-empty text on which
  \<^verbatim>\<open>JSON.parse\<close> throws, or a text that \<^verbatim>\<open>JSON.parse\<close> reads as a value.
  \<^verbatim>\<open>JSON.stringify\<close> of an object of strings is a text of the third kind that reads
  back as that object.
\<close>

datatype item = Empty | Garbage | Json jsval

text \<open>The two closures handed to \<^verbatim>\<open>setTimeout\<close>, with the value they capture.\<close>

datatype callback = FromSchedule string | FromRestore jsval

record timeout =
  delay :: "int option"
  armed_at :: int
  callback :: callback

text \<open>What the user or the console gets to see.\<close>

datatype event =
    Notice_choose_future_time
  | Notice_scheduled jsdate
  | Shown jsval
  | Log_restored jsdate
  | Log_restore_error js_exception
  | Notice_all_cancelled
  | Uncaught js_exception

text \<open>
  \<open>timer\<close> and \<open>nextNotificationTime\<close> are the two private fields of the plugin,
  \<open>storage\<close> is the entry of \<^verbatim>\<open>localStorage\<close>, \<open>timeouts\<close> are the timers of the event
  loop that have been set and neither cleared nor run, \<open>next_handle\<close> is the next handle
  \<^verbatim>\<open>setTimeout\<close> returns.  A handle is truthy, so the test \<^verbatim>\<open>if (this.timer)\<close> is the
  test for \<open>Some\<close>.  The parameters \<open>now\<close> of the operations are the readings of the
  clock by \<^verbatim>\<open>new Date()\<close>.
\<close>

record state =
  timer :: "nat option"
  nextNotificationTime :: "jsdate option"
  storage :: "item option"
  timeouts :: "(nat \<times> timeout) list"
  next_handle :: nat
  events :: "event list"

definition setTimeout :: "callback \<Rightarrow> int option \<Rightarrow> int \<Rightarrow> state \<Rightarrow> nat \<times> state" where
  "setTimeout cb d now s =
     (next_handle s,
      s\<lparr>timeouts := timeouts s @ [(next_handle s, \<lparr>delay = d, armed_at = now, callback = cb\<rparr>)],
        next_handle := Suc (next_handle s)\<rparr>)"

definition clearTimeout :: "nat \<Rightarrow> state \<Rightarrow> state" where
  "clearTimeout h s = s\<lparr>timeouts := filter (\<lambda>p. fst p \<noteq> h) (timeouts s)\<rparr>"

definition emit :: "event \<Rightarrow> state \<Rightarrow> state" where
  "emit e s = s\<lparr>events := events s @ [e]\<rparr>"

section \<open>Scheduling\<close>

definition saveToLocalStorage ::
  "platform \<Rightarrow> int \<Rightarrow> jsdate \<Rightarrow> string \<Rightarrow> state \<Rightarrow> js_exception + state" where
  "saveToLocalStorage P now' dateTime message s =
     (case dateTime of
        InvalidDate \<Rightarrow> Inl RangeError
      | Date t \<Rightarrow>
          Inr (s\<lparr>storage := Some (Json (JObj
                 [(''dateTime'', JStr (toISOString P t)),
                  (''message'', JStr message),
                  (''scheduledAt'', JStr (toISOString P now'))]))\<rparr>))"

datatype schedule_result = PastTime | Scheduled | Threw js_exception

definition scheduleNotification ::
  "platform \<Rightarrow> int \<Rightarrow> int \<Rightarrow> jsdate \<Rightarrow> string \<Rightarrow> state \<Rightarrow> schedule_result \<times> state" where
  "scheduleNotification P now now' dateTime message s =
     (let d = num_sub (getTime dateTime) (Some now) in
      if num_le_zero d then (PastTime, emit Notice_choose_future_time s)
      else
        let s1 = s\<lparr>nextNotificationTime := Some dateTime\<rparr>;
            s2 = (case timer s1 of None \<Rightarrow> s1 | Some h \<Rightarrow> clearTimeout h s1);
            (h', s3) = setTimeout (FromSchedule message) d now s2;
            s4 = s3\<lparr>timer := Some h'\<rparr>
        in case saveToLocalStorage P now' dateTime message s4 of
             Inl e \<Rightarrow> (Threw e, s4)
           | Inr s5 \<Rightarrow> (Scheduled, emit (Notice_scheduled dateTime) s5))"

text \<open>
  \<open>ScheduleNotificationModal.schedule\<close>: the date and time texts of the form are joined
  with a \<^verbatim>\<open>T\<close> and handed to the \<^verbatim>\<open>Date\<close> constructor unchecked.
\<close>

definition modal_schedule ::
  "platform \<Rightarrow> int \<Rightarrow> int \<Rightarrow> string \<Rightarrow> string \<Rightarrow> string \<Rightarrow> state
     \<Rightarrow> schedule_result \<times> state" where
  "modal_schedule P now now' date time message s =
     (case newDate P (JStr (date @ ''T'' @ time)) of
        Inl e \<Rightarrow> (Threw e, s)
      | Inr dateTime \<Rightarrow> scheduleNotification P now now' dateTime message s)"

section \<open>Restoring at start-up\<close>

text \<open>
  The body of the \<^verbatim>\<open>try\<close> block, for a truthy stored text: the three places that can
  throw (\<^verbatim>\<open>JSON.parse\<close>, the read of \<^verbatim>\<open>data.dateTime\<close> and the \<^verbatim>\<open>Date\<close> constructor)
  come before any assignment.
\<close>

definition restore_try :: "platform \<Rightarrow> int \<Rightarrow> item \<Rightarrow> state \<Rightarrow> js_exception + state" where
  "restore_try P now saved s =
     (case saved of
        Empty \<Rightarrow> Inl SyntaxError
      | Garbage \<Rightarrow> Inl SyntaxError
      | Json data \<Rightarrow>
          (case get_prop data ''dateTime'' of
             Inl e \<Rightarrow> Inl e
           | Inr v \<Rightarrow>
               (case newDate P v of
                  Inl e \<Rightarrow> Inl e
                | Inr dateTime \<Rightarrow>
                    if date_gt dateTime (Date now) then
                      let d = num_sub (getTime dateTime) (Some now);
                          s1 = s\<lparr>nextNotificationTime := Some dateTime\<rparr>;
                          (h, s2) = setTimeout (FromRestore data) d now s1;
                          s3 = s2\<lparr>timer := Some h\<rparr>
                      in Inr (emit (Log_restored dateTime) s3)
                    else Inr (s\<lparr>storage := None\<rparr>))))"

definition restoreScheduledNotifications :: "platform \<Rightarrow> int \<Rightarrow> state \<Rightarrow> state" where
  "restoreScheduledNotifications P now s =
     (case storage s of
        None \<Rightarrow> s
      | Some Empty \<Rightarrow> s
      | Some saved \<Rightarrow>
          (case restore_try P now saved s of
             Inl e \<Rightarrow> emit (Log_restore_error e) s
           | Inr s' \<Rightarrow> s'))"

section \<open>A timer runs\<close>

text \<open>
  \<open>showNotification\<close> begins with the notice \<^verbatim>\<open>`... ${message}`\<close>: the message is
  converted to a string there, and when that throws nothing has been shown.  What follows
  (the system notification of the same message, the line added to the active note in an
  \<^verbatim>\<open>async\<close> function) does not throw to the caller.
\<close>

definition showNotification :: "jsval \<Rightarrow> state \<Rightarrow> js_exception + state" where
  "showNotification message s =
     (if conversion_throws message then Inl TypeError else Inr (emit (Shown message) s))"

text \<open>
  The closure of \<open>scheduleNotification\<close> shows the message and clears the pending time;
  the closure of \<open>restoreScheduledNotifications\<close> also removes the stored entry.  Neither
  assigns \<open>timer\<close>.  When \<open>showNotification\<close> throws, the statements after it do not run.
\<close>

definition run_callback :: "callback \<Rightarrow> state \<Rightarrow> js_exception + state" where
  "run_callback cb s =
     (case cb of
        FromSchedule message \<Rightarrow>
          (case showNotification (JStr message) s of
             Inl e \<Rightarrow> Inl e
           | Inr s1 \<Rightarrow> Inr (s1\<lparr>nextNotificationTime := None\<rparr>))
      | FromRestore data \<Rightarrow>
          (case get_prop data ''message'' of
             Inl e \<Rightarrow> Inl e
           | Inr m \<Rightarrow>
               (case showNotification m s of
                  Inl e \<Rightarrow> Inl e
                | Inr s1 \<Rightarrow> Inr (s1\<lparr>nextNotificationTime := None, storage := None\<rparr>))))"

text \<open>
  The event loop runs a timer: the timer is spent, and an exception its closure throws is
  reported as uncaught, with the state as the closure left it.
\<close>

definition fire :: "nat \<Rightarrow> state \<Rightarrow> state" where
  "fire h s =
     (case map_of (timeouts s) h of
        None \<Rightarrow> s
      | Some t \<Rightarrow>
          (case run_callback (callback t) (clearTimeout h s) of
             Inl e \<Rightarrow> emit (Uncaught e) (clearTimeout h s)
           | Inr s' \<Rightarrow> s'))"

text \<open>
  How the platform reads the delay argument of \<^verbatim>\<open>setTimeout\<close>: the number is converted
  to a signed 32-bit integer (NaN to 0, other values modulo \<open>2 ^ 32\<close>) and a negative result
  counts as 0.  A timer runs no earlier than that many milliseconds after it was set.
\<close>

definition timeout_ms :: "int option \<Rightarrow> int" where
  "timeout_ms d = (case d of None \<Rightarrow> 0 | Some n \<Rightarrow> max 0 (sint (word_of_int n :: 32 word)))"

definition may_fire :: "int \<Rightarrow> nat \<Rightarrow> state \<Rightarrow> bool" where
  "may_fire now h s =
     (case map_of (timeouts s) h of
        None \<Rightarrow> False
      | Some t \<Rightarrow> armed_at t + timeout_ms (delay t) \<le> now)"

section \<open>Cancelling, and the life of the process\<close>

text \<open>The click handler of the settings tab's cancel button.\<close>

definition cancel :: "state \<Rightarrow> state" where
  "cancel s =
     (case timer s of
        None \<Rightarrow> s
      | Some h \<Rightarrow>
          emit Notice_all_cancelled
            ((clearTimeout h s)\<lparr>timer := None, nextNotificationTime := None, storage := None\<rparr>))"

text \<open>
  A new process: both fields are initialised to \<^verbatim>\<open>null\<close>, the event loop has no timers,
  the stored entry is what the previous process left.  \<open>onload\<close> then restores.
\<close>

definition new_process :: "state \<Rightarrow> state" where
  "new_process s = s\<lparr>timer := None, nextNotificationTime := None, timeouts := []\<rparr>"

definition onload :: "platform \<Rightarrow> int \<Rightarrow> state \<Rightarrow> state" where
  "onload P now s = restoreScheduledNotifications P now (new_process s)"

definition installed :: state where
  "installed = \<lparr>timer = None, nextNotificationTime = None, storage = None,
                 timeouts = [], next_handle = 1, events = []\<rparr>"

text \<open>
  The states the plugin can be in: it is loaded on a device where any text, or none, is
  stored under its key, and from then on requests are scheduled, timers run, the cancel
  button is clicked and the application is restarted, at any times.
\<close>

inductive reachable :: "platform \<Rightarrow> state \<Rightarrow> bool" for P :: platform where
  first_load: "reachable P (onload P now (installed\<lparr>storage := found\<rparr>))"
| after_schedule:
    "reachable P s \<Longrightarrow> reachable P (snd (scheduleNotification P now now' dateTime message s))"
| after_fire: "reachable P s \<Longrightarrow> reachable P (fire h s)"
| after_cancel: "reachable P s \<Longrightarrow> reachable P (cancel s)"
| after_restart: "reachable P s \<Longrightarrow> reachable P (onload P now s)"

text \<open>
  An excerpt of the platform's date conversions, enough to run examples: four time values
  with their ISO-8601 texts.
\<close>

definition iso_excerpt :: "(int \<times> string) list" where
  "iso_excerpt =
     [(0, ''1970-01-01T00:00:00.000Z''),
      (1000, ''1970-01-01T00:00:01.000Z''),
      (60000, ''1970-01-01T00:01:00.000Z''),
      (2592000000, ''1970-01-31T00:00:00.000Z'')]"

definition excerpt :: platform where
  "excerpt =
     \<lparr>toISOString = (\<lambda>t. case map_of iso_excerpt t of None \<Rightarrow> [] | Some x \<Rightarrow> x),
      Date_parse = (\<lambda>x. map_of (map (\<lambda>(t, x). (x, t)) iso_excerpt) x),
      ToPrimitive = (\<lambda>v. ''[object Object]'')\<rparr>"

section \<open>Example runs\<close>

text \<open>
  A first run: the plugin is loaded at time 0 on a fresh device, a reminder for time 1000 is
  scheduled at once, and its timer runs.
\<close>

definition example_loaded :: state where
  "example_loaded = onload excerpt 0 installed"

definition example_armed :: state where
  "example_armed = snd (scheduleNotification excerpt 0 0 (Date 1000) ''hello'' example_loaded)"

definition example_fired :: state where
  "example_fired = fire 1 example_armed"




text \<open>
  A third run: at time 0 a reminder is scheduled for thirty days later (time 2592000000),
  its timer runs, and the application is restarted at time 60000.
\<close>

definition far_armed :: state where
  "far_armed = snd (scheduleNotification excerpt 0 0 (Date 2592000000) ''hello'' example_loaded)"

definition far_fired :: state where
  "far_fired = fire 1 far_armed"

definition far_restarted :: state where
  "far_restarted = onload excerpt 60000 far_fired"




text \<open>A fifth run: the plugin is loaded at time 0 on a device where a text that is not JSON is stored.\<close>

definition garbage_loaded :: state where
  "garbage_loaded = onload excerpt 0 (installed\<lparr>storage := Some Garbage\<rparr>)"

section \<open>Invariants\<close>

text \<open>
  \<open>handles_ok\<close>: every timer of the event loop is the one whose handle the plugin holds,
  and its handle has been given out already.
  \<open>passed_over\<close>: a stored text that restoring leaves where it is without setting a timer:
  the empty text, a text that is not JSON, and a JSON value the read of whose \<open>dateTime\<close>,
  or the \<^verbatim>\<open>Date\<close> constructor on it, throws.
  \<open>consistent\<close>: while the plugin holds no handle, a stored text, if there is one, is of
  that kind.
\<close>

definition handles_ok :: "state \<Rightarrow> bool" where
  "handles_ok s = (\<forall>p \<in> set (timeouts s). timer s = Some (fst p) \<and> fst p < next_handle s)"

definition passed_over :: "platform \<Rightarrow> item \<Rightarrow> bool" where
  "passed_over P x =
     (case x of
        Empty \<Rightarrow> True
      | Garbage \<Rightarrow> True
      | Json data \<Rightarrow>
          (case get_prop data ''dateTime'' of
             Inl e \<Rightarrow> True
           | Inr v \<Rightarrow> (case newDate P v of Inl e \<Rightarrow> True | Inr d \<Rightarrow> False)))"

definition consistent :: "platform \<Rightarrow> state \<Rightarrow> bool" where
  "consistent P s =
     (handles_ok s \<and>
      (timer s = None \<longrightarrow> (case storage s of None \<Rightarrow> True | Some x \<Rightarrow> passed_over P x)))"

section \<open>Properties\<close>

subsection \<open>The paths of the operations, the invariants, the example runs\<close>

lemma schedule_past:
  "t \<le> now \<Longrightarrow>
   scheduleNotification P now now' (Date t) msg s
     = (PastTime, s\<lparr>events := events s @ [Notice_choose_future_time]\<rparr>)"
  by (simp add: scheduleNotification_def emit_def)

lemma handles_ok_filter:
  "handles_ok s \<Longrightarrow> timer s = Some h \<Longrightarrow> filter (\<lambda>p. fst p \<noteq> h) (timeouts s) = []"
  by (auto simp: handles_ok_def filter_empty_conv)

lemma handles_ok_none: "handles_ok s \<Longrightarrow> timer s = None \<Longrightarrow> timeouts s = []"
  by (cases "timeouts s") (auto simp: handles_ok_def)

lemma schedule_future:
  "now < t \<Longrightarrow>
   scheduleNotification P now now' (Date t) msg s =
     (Scheduled,
      s\<lparr>nextNotificationTime := Some (Date t),
        timeouts := (case timer s of None \<Rightarrow> timeouts s
                     | Some h \<Rightarrow> filter (\<lambda>p. fst p \<noteq> h) (timeouts s))
                    @ [(next_handle s, \<lparr>delay = Some (t - now), armed_at = now,
                                         callback = FromSchedule msg\<rparr>)],
        next_handle := Suc (next_handle s),
        timer := Some (next_handle s),
        storage := Some (Json (JObj [(''dateTime'', JStr (toISOString P t)),
                                     (''message'', JStr msg),
                                     (''scheduledAt'', JStr (toISOString P now'))])),
        events := events s @ [Notice_scheduled (Date t)]\<rparr>)"
  by (simp add: scheduleNotification_def saveToLocalStorage_def setTimeout_def clearTimeout_def
      emit_def Let_def split: option.splits)

lemma schedule_invalid:
  "scheduleNotification P now now' InvalidDate msg s =
     (Threw RangeError,
      s\<lparr>nextNotificationTime := Some InvalidDate,
        timeouts := (case timer s of None \<Rightarrow> timeouts s
                     | Some h \<Rightarrow> filter (\<lambda>p. fst p \<noteq> h) (timeouts s))
                    @ [(next_handle s, \<lparr>delay = None, armed_at = now,
                                         callback = FromSchedule msg\<rparr>)],
        next_handle := Suc (next_handle s),
        timer := Some (next_handle s)\<rparr>)"
  by (simp add: scheduleNotification_def saveToLocalStorage_def setTimeout_def clearTimeout_def
      emit_def Let_def split: option.splits)

lemma modal_schedule_unreadable:
  "Date_parse P (date @ ''T'' @ time) = None \<Longrightarrow>
   modal_schedule P now now' date time msg s = scheduleNotification P now now' InvalidDate msg s"
  by (simp add: modal_schedule_def of_time_def)

lemma handles_ok_schedule:
  "handles_ok s \<Longrightarrow> handles_ok (snd (scheduleNotification P now now' d m s))"
proof (cases d)
  case InvalidDate
  assume "handles_ok s"
  then show ?thesis unfolding InvalidDate schedule_invalid
    by (cases "timer s") (auto simp: handles_ok_def)
next
  case (Date t)
  assume ok: "handles_ok s"
  show ?thesis
  proof (cases "now < t")
    case True
    with ok show ?thesis unfolding Date schedule_future [OF True]
      by (cases "timer s") (auto simp: handles_ok_def)
  next
    case False
    then have "t \<le> now" by simp
    with ok show ?thesis unfolding Date
      by (simp add: schedule_past handles_ok_def)
  qed
qed

lemma restore_absent: "storage s = None \<Longrightarrow> restoreScheduledNotifications P now s = s"
  by (simp add: restoreScheduledNotifications_def)

lemma restore_empty: "storage s = Some Empty \<Longrightarrow> restoreScheduledNotifications P now s = s"
  by (simp add: restoreScheduledNotifications_def)

lemma restore_garbage:
  "storage s = Some Garbage \<Longrightarrow>
   restoreScheduledNotifications P now s = s\<lparr>events := events s @ [Log_restore_error SyntaxError]\<rparr>"
  by (simp add: restoreScheduledNotifications_def restore_try_def emit_def)

lemma restore_throw:
  "storage s = Some (Json data) \<Longrightarrow> get_prop data ''dateTime'' = Inl e \<Longrightarrow>
   restoreScheduledNotifications P now s = s\<lparr>events := events s @ [Log_restore_error e]\<rparr>"
  by (simp add: restoreScheduledNotifications_def restore_try_def emit_def)

lemma restore_date_throw:
  "storage s = Some (Json data) \<Longrightarrow> get_prop data ''dateTime'' = Inr v \<Longrightarrow>
   newDate P v = Inl e \<Longrightarrow>
   restoreScheduledNotifications P now s = s\<lparr>events := events s @ [Log_restore_error e]\<rparr>"
  by (simp add: restoreScheduledNotifications_def restore_try_def emit_def)

lemma restore_stale:
  "storage s = Some (Json data) \<Longrightarrow> get_prop data ''dateTime'' = Inr v \<Longrightarrow>
   newDate P v = Inr d \<Longrightarrow> \<not> date_gt d (Date now) \<Longrightarrow>
   restoreScheduledNotifications P now s = s\<lparr>storage := None\<rparr>"
  by (simp add: restoreScheduledNotifications_def restore_try_def)

lemma restore_future:
  "storage s = Some (Json data) \<Longrightarrow> get_prop data ''dateTime'' = Inr v \<Longrightarrow>
   newDate P v = Inr (Date t) \<Longrightarrow> now < t \<Longrightarrow>
   restoreScheduledNotifications P now s =
     s\<lparr>nextNotificationTime := Some (Date t),
       timeouts := timeouts s @ [(next_handle s, \<lparr>delay = Some (t - now), armed_at = now,
                                                  callback = FromRestore data\<rparr>)],
       next_handle := Suc (next_handle s),
       timer := Some (next_handle s),
       events := events s @ [Log_restored (Date t)]\<rparr>"
  by (simp add: restoreScheduledNotifications_def restore_try_def setTimeout_def emit_def Let_def)

lemma date_gt_cases:
  "date_gt d (Date now) \<Longrightarrow> \<exists>t. d = Date t \<and> now < t"
  by (cases d) auto

lemma consistent_log:
  "timer s = None \<Longrightarrow> timeouts s = [] \<Longrightarrow> storage s = Some x \<Longrightarrow> passed_over P x \<Longrightarrow>
   consistent P (s\<lparr>events := ev\<rparr>)"
  by (simp add: consistent_def handles_ok_def)

lemma consistent_onload: "consistent P (onload P now s)"
proof -
  let ?s0 = "new_process s"
  have t0: "timeouts ?s0 = []" and tm0: "timer ?s0 = None"
    by (simp_all add: new_process_def)
  have same: "?s0\<lparr>events := events ?s0\<rparr> = ?s0" by simp
  show ?thesis
  proof (cases "storage ?s0")
    case None
    then have "restoreScheduledNotifications P now ?s0 = ?s0" by (rule restore_absent)
    then show ?thesis
      using None t0 by (simp add: onload_def consistent_def handles_ok_def)
  next
    case (Some x)
    show ?thesis
    proof (cases x)
      case Empty
      with Some have st: "storage ?s0 = Some Empty" by simp
      have po: "passed_over P Empty" by (simp add: passed_over_def)
      from consistent_log [OF tm0 t0 st po, of "events ?s0"] restore_empty [OF st] same
      show ?thesis by (simp add: onload_def)
    next
      case Garbage
      with Some have st: "storage ?s0 = Some Garbage" by simp
      have po: "passed_over P Garbage" by (simp add: passed_over_def)
      from consistent_log [OF tm0 t0 st po] restore_garbage [OF st]
      show ?thesis by (simp add: onload_def)
    next
      case (Json data)
      with Some have st: "storage ?s0 = Some (Json data)" by simp
      show ?thesis
      proof (cases "get_prop data ''dateTime''")
        case (Inl e)
        then have "passed_over P (Json data)" by (simp add: passed_over_def)
        from consistent_log [OF tm0 t0 st this] restore_throw [OF st Inl]
        show ?thesis by (simp add: onload_def)
      next
        case (Inr v)
        show ?thesis
        proof (cases "newDate P v")
          case (Inl e)
          with Inr have "passed_over P (Json data)" by (simp add: passed_over_def)
          from consistent_log [OF tm0 t0 st this] restore_date_throw [OF st Inr Inl]
          show ?thesis by (simp add: onload_def)
        next
          case d: (Inr d)
          show ?thesis
          proof (cases "date_gt d (Date now)")
            case True
            then obtain t where "d = Date t" "now < t" using date_gt_cases by blast
            with d have dt: "newDate P v = Inr (Date t)" by simp
            show ?thesis
              unfolding onload_def restore_future [OF st Inr dt \<open>now < t\<close>]
              using t0 by (simp add: consistent_def handles_ok_def)
          next
            case False
            show ?thesis
              unfolding onload_def restore_stale [OF st Inr d False]
              using t0 by (simp add: consistent_def handles_ok_def)
          qed
        qed
      qed
    qed
  qed
qed

lemma consistent_schedule:
  assumes "consistent P s"
  shows "consistent P (snd (scheduleNotification P now now' d m s))"
proof -
  from assms have ok: "handles_ok s" by (simp add: consistent_def)
  have h: "handles_ok (snd (scheduleNotification P now now' d m s))"
    by (rule handles_ok_schedule [OF ok])
  show ?thesis
  proof (cases d)
    case InvalidDate
    with assms h show ?thesis
      by (simp add: consistent_def schedule_invalid)
  next
    case (Date t)
    show ?thesis
    proof (cases "now < t")
      case True
      with assms h Date show ?thesis
        by (simp add: consistent_def schedule_future)
    next
      case False
      then have "t \<le> now" by simp
      with assms h Date show ?thesis
        by (simp add: consistent_def schedule_past)
    qed
  qed
qed

lemma fire_fields:
  "timer (fire h s) = timer s"
  "next_handle (fire h s) = next_handle s"
  "set (timeouts (fire h s)) \<subseteq> set (timeouts s)"
  "storage (fire h s) = storage s \<or> storage (fire h s) = None"
  by (auto simp: fire_def run_callback_def showNotification_def clearTimeout_def emit_def
      split: option.splits callback.splits sum.splits if_splits)

lemma consistent_fire:
  assumes "consistent P s"
  shows "consistent P (fire h s)"
proof -
  have "handles_ok (fire h s)"
    using assms fire_fields(1,2,3) [of h s] by (auto simp: consistent_def handles_ok_def)
  moreover have "timer (fire h s) = None \<longrightarrow>
      (case storage (fire h s) of None \<Rightarrow> True | Some x \<Rightarrow> passed_over P x)"
    using assms fire_fields(1,4) [of h s] by (auto simp: consistent_def)
  ultimately show ?thesis by (simp add: consistent_def)
qed

lemma consistent_cancel:
  assumes "consistent P s"
  shows "consistent P (cancel s)"
proof (cases "timer s")
  case None
  with assms show ?thesis by (simp add: cancel_def)
next
  case (Some h)
  from assms have "handles_ok s" by (simp add: consistent_def)
  from handles_ok_filter [OF this Some] Some show ?thesis
    by (simp add: cancel_def clearTimeout_def emit_def consistent_def handles_ok_def)
qed

lemma reachable_consistent: "reachable P s \<Longrightarrow> consistent P s"
proof (induction rule: reachable.induct)
  case (first_load now found)
  show ?case by (rule consistent_onload)
next
  case (after_schedule s now now' dateTime message)
  then show ?case by (simp add: consistent_schedule)
next
  case (after_fire s h)
  then show ?case by (simp add: consistent_fire)
next
  case (after_cancel s)
  then show ?case by (simp add: consistent_cancel)
next
  case (after_restart s now)
  show ?case by (rule consistent_onload)
qed

lemma example_loaded_value: "example_loaded = installed"
  by (simp add: example_loaded_def onload_def new_process_def installed_def
      restoreScheduledNotifications_def)

lemma example_armed_value:
  "example_armed =
     \<lparr>timer = Some 1, nextNotificationTime = Some (Date 1000),
      storage = Some (Json (JObj [(''dateTime'', JStr ''1970-01-01T00:00:01.000Z''),
                                  (''message'', JStr ''hello''),
                                  (''scheduledAt'', JStr ''1970-01-01T00:00:00.000Z'')])),
      timeouts = [(1, \<lparr>delay = Some 1000, armed_at = 0, callback = FromSchedule ''hello''\<rparr>)],
      next_handle = 2,
      events = [Notice_scheduled (Date 1000)]\<rparr>"
  by (simp add: example_armed_def example_loaded_value schedule_future installed_def
      excerpt_def iso_excerpt_def)

lemma example_fired_value:
  "example_fired =
     \<lparr>timer = Some 1, nextNotificationTime = None,
      storage = Some (Json (JObj [(''dateTime'', JStr ''1970-01-01T00:00:01.000Z''),
                                  (''message'', JStr ''hello''),
                                  (''scheduledAt'', JStr ''1970-01-01T00:00:00.000Z'')])),
      timeouts = [],
      next_handle = 2,
      events = [Notice_scheduled (Date 1000), Shown (JStr ''hello'')]\<rparr>"
  by (simp add: example_fired_def example_armed_value fire_def run_callback_def
      showNotification_def clearTimeout_def emit_def)




lemma run_scheduled_callback:
  "run_callback (FromSchedule msg) s =
     Inr (s\<lparr>events := events s @ [Shown (JStr msg)], nextNotificationTime := None\<rparr>)"
  by (simp add: run_callback_def showNotification_def emit_def)

lemma garbage_loaded_value:
  "garbage_loaded = installed\<lparr>storage := Some Garbage, events := [Log_restore_error SyntaxError]\<rparr>"
  by (simp add: garbage_loaded_def onload_def new_process_def installed_def
      restoreScheduledNotifications_def restore_try_def emit_def)




lemma reachable_handles: "reachable P s \<Longrightarrow> handles_ok s"
  using reachable_consistent by (simp add: consistent_def)

lemma fire_unknown: "map_of (timeouts s) h = None \<Longrightarrow> fire h s = s"
  by (simp add: fire_def)

lemma schedule_future_single:
  assumes ok: "handles_ok s" and fut: "now < t"
  shows "timeouts (snd (scheduleNotification P now now' (Date t) msg s)) =
           [(next_handle s, \<lparr>delay = Some (t - now), armed_at = now,
                               callback = FromSchedule msg\<rparr>)]"
proof (cases "timer s")
  case None
  with ok have "timeouts s = []" by (simp add: handles_ok_none)
  with None fut show ?thesis by (simp add: schedule_future)
next
  case (Some h)
  with ok have "filter (\<lambda>p. fst p \<noteq> h) (timeouts s) = []" by (simp add: handles_ok_filter)
  with Some fut show ?thesis by (simp add: schedule_future)
qed

lemma example_loaded_reachable: "reachable excerpt example_loaded"
proof -
  have "reachable excerpt (onload excerpt 0 (installed\<lparr>storage := None\<rparr>))"
    by (rule reachable.first_load)
  moreover have "installed\<lparr>storage := None\<rparr> = installed"
    by (simp add: installed_def)
  ultimately show ?thesis by (simp add: example_loaded_def)
qed

lemma example_armed_reachable: "reachable excerpt example_armed"
  unfolding example_armed_def
  by (rule reachable.after_schedule) (rule example_loaded_reachable)

lemma example_fired_reachable: "reachable excerpt example_fired"
  unfolding example_fired_def by (rule reachable.after_fire) (rule example_armed_reachable)

lemma timeout_ms_in_range:
  assumes "0 \<le> d" and "d \<le> 2147483647"
  shows "timeout_ms (Some d) = d"
proof -
  have "sint (word_of_int d :: 32 word) = d"
    using assms by (simp add: int_word_sint)
  with assms show ?thesis by (simp add: timeout_ms_def)
qed

lemma far_armed_value:
  "far_armed =
     \<lparr>timer = Some 1, nextNotificationTime = Some (Date 2592000000),
      storage = Some (Json (JObj [(''dateTime'', JStr ''1970-01-31T00:00:00.000Z''),
                                  (''message'', JStr ''hello''),
                                  (''scheduledAt'', JStr ''1970-01-01T00:00:00.000Z'')])),
      timeouts = [(1, \<lparr>delay = Some 2592000000, armed_at = 0,
                        callback = FromSchedule ''hello''\<rparr>)],
      next_handle = 2,
      events = [Notice_scheduled (Date 2592000000)]\<rparr>"
  by (simp add: far_armed_def example_loaded_value schedule_future installed_def
      excerpt_def iso_excerpt_def)

lemma far_timeout: "timeout_ms (Some 2592000000) = 0" "timeout_ms (Some 2591940000) = 0"
  by (simp_all add: timeout_ms_def int_word_sint)

lemma far_fired_value:
  "far_fired =
     \<lparr>timer = Some 1, nextNotificationTime = None,
      storage = Some (Json (JObj [(''dateTime'', JStr ''1970-01-31T00:00:00.000Z''),
                                  (''message'', JStr ''hello''),
                                  (''scheduledAt'', JStr ''1970-01-01T00:00:00.000Z'')])),
      timeouts = [],
      next_handle = 2,
      events = [Notice_scheduled (Date 2592000000), Shown (JStr ''hello'')]\<rparr>"
  by (simp add: far_fired_def far_armed_value fire_def run_callback_def showNotification_def
      clearTimeout_def emit_def)

lemma far_restarted_value:
  "far_restarted =
     \<lparr>timer = Some 2, nextNotificationTime = Some (Date 2592000000),
      storage = Some (Json (JObj [(''dateTime'', JStr ''1970-01-31T00:00:00.000Z''),
                                  (''message'', JStr ''hello''),
                                  (''scheduledAt'', JStr ''1970-01-01T00:00:00.000Z'')])),
      timeouts = [(2, \<lparr>delay = Some 2591940000, armed_at = 60000,
                        callback = FromRestore
                          (JObj [(''dateTime'', JStr ''1970-01-31T00:00:00.000Z''),
                                 (''message'', JStr ''hello''),
                                 (''scheduledAt'', JStr ''1970-01-01T00:00:00.000Z'')])\<rparr>)],
      next_handle = 3,
      events = [Notice_scheduled (Date 2592000000), Shown (JStr ''hello''),
                Log_restored (Date 2592000000)]\<rparr>"
  by (simp add: far_restarted_def far_fired_value onload_def new_process_def
      restoreScheduledNotifications_def restore_try_def
      excerpt_def iso_excerpt_def of_time_def setTimeout_def emit_def Let_def)

lemma restart_after_fire:
  assumes r: "reachable P s"
    and fut: "now < t"
    and range: "t - now \<le> 2147483647"
    and rt: "Date_parse P (toISOString P t) = Some t"
    and mf: "may_fire tf (next_handle s) (snd (scheduleNotification P now now' (Date t) msg s))"
    and later: "tf \<le> tr"
  shows "onload P tr (fire (next_handle s) (snd (scheduleNotification P now now' (Date t) msg s)))
         = (snd (scheduleNotification P now now' (Date t) msg s))
             \<lparr>timer := None, nextNotificationTime := None, timeouts := [], storage := None,
              events := events s @ [Notice_scheduled (Date t), Shown (JStr msg)]\<rparr>"
proof -
  let ?s1 = "snd (scheduleNotification P now now' (Date t) msg s)"
  let ?data = "JObj [(''dateTime'', JStr (toISOString P t)), (''message'', JStr msg),
                     (''scheduledAt'', JStr (toISOString P now'))]"
  from r have ok: "handles_ok s" by (rule reachable_handles)
  have one: "timeouts ?s1 = [(next_handle s, \<lparr>delay = Some (t - now), armed_at = now,
                                               callback = FromSchedule msg\<rparr>)]"
    by (rule schedule_future_single [OF ok fut])
  have st1: "storage ?s1 = Some (Json ?data)"
    and ev1: "events ?s1 = events s @ [Notice_scheduled (Date t)]"
    using fut by (simp_all add: schedule_future)
  from mf one have "now + timeout_ms (Some (t - now)) \<le> tf"
    by (simp add: may_fire_def)
  moreover have "timeout_ms (Some (t - now)) = t - now"
    using fut range by (simp add: timeout_ms_in_range)
  ultimately have due: "t \<le> tr" using later by simp
  let ?s2 = "fire (next_handle s) ?s1"
  have s2: "?s2 = ?s1\<lparr>timeouts := [], events := events ?s1 @ [Shown (JStr msg)],
                       nextNotificationTime := None\<rparr>"
    using one by (simp add: fire_def run_callback_def showNotification_def clearTimeout_def emit_def)
  let ?s3 = "new_process ?s2"
  have st3: "storage ?s3 = Some (Json ?data)"
    using s2 st1 by (simp add: new_process_def)
  have gp: "get_prop ?data ''dateTime'' = Inr (JStr (toISOString P t))" by simp
  have nd: "newDate P (JStr (toISOString P t)) = Inr (Date t)"
    using rt by (simp add: of_time_def)
  have "\<not> date_gt (Date t) (Date tr)"
    using due by simp
  from restore_stale [OF st3 gp nd this]
  have "onload P tr ?s2 = ?s3\<lparr>storage := None\<rparr>" by (simp add: onload_def)
  also have "\<dots> = ?s1\<lparr>timer := None, nextNotificationTime := None, timeouts := [],
                       storage := None,
                       events := events s @ [Notice_scheduled (Date t), Shown (JStr msg)]\<rparr>"
    by (simp add: s2 ev1 new_process_def)
  finally show ?thesis .
qed

subsection \<open>The claims\<close>

text \<open>
  C1.  A request for a time strictly after the current time succeeds.  The pending time is
  the requested time; a timer is set with the delay \<open>t - now\<close> and the closure that shows
  \<open>msg\<close>, after the timer the plugin held a handle of has been cleared, and the plugin
  holds its handle; the stored entry is replaced by the object with \<open>dateTime\<close> the
  ISO-8601 text of the requested time, \<open>message\<close> the message and \<open>scheduledAt\<close> the
  ISO-8601 text of the clock as read when the entry is written (\<open>now'\<close>, the second
  reading of the clock in the call); the confirmation is shown.
\<close>

theorem schedule_future_arms_and_persists:
  "now < t \<Longrightarrow>
   (case scheduleNotification P now now' (Date t) msg s of (r, s') \<Rightarrow>
      r = Scheduled \<and>
      nextNotificationTime s' = Some (Date t) \<and>
      timer s' = Some (next_handle s) \<and>
      timeouts s' =
        timeouts (case timer s of None \<Rightarrow> s | Some h \<Rightarrow> clearTimeout h s)
        @ [(next_handle s,
            \<lparr>delay = Some (t - now), armed_at = now, callback = FromSchedule msg\<rparr>)] \<and>
      storage s' = Some (Json (JObj [(''dateTime'', JStr (toISOString P t)),
                                     (''message'', JStr msg),
                                     (''scheduledAt'', JStr (toISOString P now'))])) \<and>
      events s' = events s @ [Notice_scheduled (Date t)])"
  by (simp add: schedule_future clearTimeout_def split: option.splits)

theorem schedule_future_arms_and_persists_witness:
  "(1000::int) < 60000 \<and>
   (case scheduleNotification excerpt 1000 1000 (Date 60000) ''hello'' installed of (r, s') \<Rightarrow>
      r = Scheduled \<and>
      nextNotificationTime s' = Some (Date 60000) \<and>
      timer s' = Some 1 \<and>
      timeouts s' =
        [(1, \<lparr>delay = Some 59000, armed_at = 1000, callback = FromSchedule ''hello''\<rparr>)] \<and>
      storage s' = Some (Json (JObj [(''dateTime'', JStr ''1970-01-01T00:01:00.000Z''),
                                     (''message'', JStr ''hello''),
                                     (''scheduledAt'', JStr ''1970-01-01T00:00:01.000Z'')])) \<and>
      events s' = [Notice_scheduled (Date 60000)])"
  using schedule_future_arms_and_persists [where now = 1000 and t = 60000 and P = excerpt and now' = 1000
      and msg = "''hello''" and s = installed]
  by (simp add: installed_def excerpt_def iso_excerpt_def split: prod.splits)

text \<open>
  C2.  A request whose target time is at or before the current time is answered with the
  notice asking for a future time and nothing else: the pending time, the timer handle,
  the timers of the event loop and the stored entry are as before.
\<close>

theorem schedule_past_rejected:
  "t \<le> now \<Longrightarrow>
   scheduleNotification P now now' (Date t) msg s
     = (PastTime, s\<lparr>events := events s @ [Notice_choose_future_time]\<rparr>)"
  by (simp add: scheduleNotification_def emit_def)

theorem schedule_past_rejected_witness:
  "(5::int) \<le> 10 \<and>
   scheduleNotification excerpt 10 11 (Date 5) ''hello'' installed
     = (PastTime, installed\<lparr>events := [Notice_choose_future_time]\<rparr>)"
  using schedule_past_rejected [of 5 10 excerpt 11 "''hello''" installed]
  by (simp add: installed_def)

text \<open>
  C3.  What a request with an invalid date does.  The delay is NaN, the test
  \<^verbatim>\<open>delay <= 0\<close> is false, and the request is not turned down: the pending time becomes the
  invalid date, the earlier timer is cleared and a timer with a NaN delay is set, and then
  \<^verbatim>\<open>toISOString\<close> throws a \<^verbatim>\<open>RangeError\<close> out of the call.  The stored entry and the
  notices are as before.
\<close>

theorem schedule_invalid_date_throws:
  "(case scheduleNotification P now now' InvalidDate msg s of (r, s') \<Rightarrow>
      r = Threw RangeError \<and>
      nextNotificationTime s' = Some InvalidDate \<and>
      timer s' = Some (next_handle s) \<and>
      timeouts s' =
        timeouts (case timer s of None \<Rightarrow> s | Some h \<Rightarrow> clearTimeout h s)
        @ [(next_handle s, \<lparr>delay = None, armed_at = now, callback = FromSchedule msg\<rparr>)] \<and>
      storage s' = storage s \<and>
      events s' = events s)"
  by (simp add: schedule_invalid clearTimeout_def split: option.splits)

text \<open>
  C4.  In every state the plugin can be in, after a request for a future time the event
  loop holds exactly one timer: the one just set, with this request's delay and message,
  and it is the one whose handle the plugin holds.  Every timer that was set before is
  gone from the event loop, so a run of its handle does nothing.
\<close>

theorem schedule_leaves_one_timer:
  "reachable P s \<Longrightarrow> now < t \<Longrightarrow>
   (case scheduleNotification P now now' (Date t) msg s of (r, s') \<Rightarrow>
      r = Scheduled \<and>
      timeouts s' = [(next_handle s, \<lparr>delay = Some (t - now), armed_at = now,
                                        callback = FromSchedule msg\<rparr>)] \<and>
      timer s' = Some (next_handle s) \<and>
      (\<forall>p \<in> set (timeouts s). map_of (timeouts s') (fst p) = None \<and> fire (fst p) s' = s'))"
proof -
  assume r: "reachable P s" and fut: "now < t"
  obtain res s' where eq: "scheduleNotification P now now' (Date t) msg s = (res, s')"
    by (cases "scheduleNotification P now now' (Date t) msg s")
  from r have ok: "handles_ok s" by (rule reachable_handles)
  have one: "timeouts s' = [(next_handle s, \<lparr>delay = Some (t - now), armed_at = now,
                                        callback = FromSchedule msg\<rparr>)]"
    using schedule_future_single [OF ok fut, of P now' msg] eq by simp
  have res: "res = Scheduled" and tm: "timer s' = Some (next_handle s)"
    using eq fut by (auto simp: schedule_future)
  have old: "map_of (timeouts s') (fst p) = None \<and> fire (fst p) s' = s'"
    if "p \<in> set (timeouts s)" for p
  proof -
    from ok that have "fst p < next_handle s" by (simp add: handles_ok_def)
    then have "map_of (timeouts s') (fst p) = None" using one by simp
    then show ?thesis by (simp add: fire_unknown)
  qed
  from res one tm old show ?thesis unfolding eq by simp
qed

theorem schedule_leaves_one_timer_witness:
  "reachable excerpt example_armed \<and> (1000::int) < 60000 \<and>
   timeouts example_armed
     = [(1, \<lparr>delay = Some 1000, armed_at = 0, callback = FromSchedule ''hello''\<rparr>)] \<and>
   (case scheduleNotification excerpt 1000 1000 (Date 60000) ''again'' example_armed of
      (r, s') \<Rightarrow>
        r = Scheduled \<and>
        timeouts s' = [(2, \<lparr>delay = Some 59000, armed_at = 1000,
                              callback = FromSchedule ''again''\<rparr>)] \<and>
        timer s' = Some 2 \<and>
        map_of (timeouts s') 1 = None \<and> fire 1 s' = s')"
  using
    schedule_leaves_one_timer [where P = excerpt and s = example_armed and now = 1000
      and t = 60000 and now' = 1000 and msg = "''again''"]
    example_armed_reachable
  by (simp add: example_armed_value split: prod.splits)




text \<open>
  C6, a state where it fails.  The first run, after its timer has run at time 1000: no timer is set and no time is
  pending, but the plugin still holds the handle of the timer that ran, and the entry
  written when the reminder was scheduled is still stored.  A click on the cancel button
  is then not a no-op: it drops the handle, removes the stored entry and shows the notice.
\<close>

theorem cancel_after_fire_counterexample:
  "may_fire 1000 1 example_armed \<and>
   timeouts example_fired = [] \<and>
   nextNotificationTime example_fired = None \<and>
   storage example_fired \<noteq> None \<and>
   storage (cancel example_fired) = None \<and>
   timer (cancel example_fired) \<noteq> timer example_fired \<and>
   events (cancel example_fired) = events example_fired @ [Notice_all_cancelled]"
  by (simp add: example_fired_value example_armed_value
      may_fire_def timeout_ms_def cancel_def clearTimeout_def emit_def)

text \<open>
  C6, as the code has it.  The cancel button goes by the handle the plugin holds.  With a
  handle \<open>h\<close>: the timer \<open>h\<close> is cleared, the handle and the pending time are cleared, the
  stored entry is removed and the notice is shown; in a state the plugin can be in no
  timer is left.  With no handle: nothing changes.  In a state the plugin can be in, on
  a device where any text may have been stored before the first load, there is then no
  timer, and a text is stored only if it is one that restoring has passed over (an empty
  text, a text that is not JSON, or a value whose \<open>dateTime\<close> cannot be read); the cancel
  button leaves such a text where it is.
\<close>

theorem cancel_by_handle:
  "(timer s = Some h \<longrightarrow>
      cancel s = s\<lparr>timeouts := filter (\<lambda>p. fst p \<noteq> h) (timeouts s),
                   timer := None, nextNotificationTime := None, storage := None,
                   events := events s @ [Notice_all_cancelled]\<rparr>) \<and>
   (timer s = None \<longrightarrow> cancel s = s) \<and>
   (reachable P s \<and> timer s = None \<longrightarrow>
      timeouts s = [] \<and> (case storage s of None \<Rightarrow> True | Some x \<Rightarrow> passed_over P x)) \<and>
   (reachable P s \<and> timer s = Some h \<longrightarrow> timeouts (cancel s) = [])"
proof (intro conjI impI)
  assume "timer s = Some h"
  then show "cancel s = s\<lparr>timeouts := filter (\<lambda>p. fst p \<noteq> h) (timeouts s),
                   timer := None, nextNotificationTime := None, storage := None,
                   events := events s @ [Notice_all_cancelled]\<rparr>"
    by (simp add: cancel_def clearTimeout_def emit_def)
next
  assume "timer s = None"
  then show "cancel s = s" by (simp add: cancel_def)
next
  assume a: "reachable P s \<and> timer s = None"
  then have "handles_ok s" using reachable_handles by blast
  with a show "timeouts s = []" by (simp add: handles_ok_none)
next
  assume a: "reachable P s \<and> timer s = None"
  then have "consistent P s" using reachable_consistent by blast
  with a show "case storage s of None \<Rightarrow> True | Some x \<Rightarrow> passed_over P x"
    by (simp add: consistent_def)
next
  assume a: "reachable P s \<and> timer s = Some h"
  then have "handles_ok s" using reachable_handles by blast
  with a have "filter (\<lambda>p. fst p \<noteq> h) (timeouts s) = []" by (simp add: handles_ok_filter)
  with a show "timeouts (cancel s) = []"
    by (simp add: cancel_def clearTimeout_def emit_def)
qed

theorem cancel_by_handle_witness:
  "timer example_armed = Some 1 \<and> reachable excerpt example_armed \<and>
   cancel example_armed =
     installed\<lparr>next_handle := 2, events := [Notice_scheduled (Date 1000), Notice_all_cancelled]\<rparr> \<and>
   timer example_loaded = None \<and> reachable excerpt example_loaded \<and>
   cancel example_loaded = example_loaded \<and>
   storage example_loaded = None \<and> timeouts example_loaded = [] \<and>
   timer garbage_loaded = None \<and> reachable excerpt garbage_loaded \<and>
   cancel garbage_loaded = garbage_loaded \<and>
   storage garbage_loaded = Some Garbage \<and> passed_over excerpt Garbage \<and>
   timeouts garbage_loaded = []"
proof -
  have a: "timer example_armed = Some 1" by (simp add: example_armed_value)
  have b: "timer example_loaded = None" "storage example_loaded = None"
    by (simp_all add: example_loaded_value installed_def)
  have g: "timer garbage_loaded = None" "storage garbage_loaded = Some Garbage"
    by (simp_all add: garbage_loaded_value installed_def)
  note ra = example_armed_reachable and rl = example_loaded_reachable
  have rg: "reachable excerpt garbage_loaded"
    unfolding garbage_loaded_def by (rule reachable.first_load)
  have "cancel example_armed =
          example_armed\<lparr>timeouts := filter (\<lambda>p. fst p \<noteq> 1) (timeouts example_armed),
                   timer := None, nextNotificationTime := None, storage := None,
                   events := events example_armed @ [Notice_all_cancelled]\<rparr>
        \<and> timeouts (cancel example_armed) = []"
    using cancel_by_handle [where s = example_armed and h = 1 and P = excerpt] a ra by blast
  then have c: "cancel example_armed =
     installed\<lparr>next_handle := 2, events := [Notice_scheduled (Date 1000), Notice_all_cancelled]\<rparr>"
    by (simp add: example_armed_value installed_def)
  have d: "cancel example_loaded = example_loaded \<and> timeouts example_loaded = []"
    using cancel_by_handle [where s = example_loaded and P = excerpt] b rl by blast
  have "cancel garbage_loaded = garbage_loaded \<and> timeouts garbage_loaded = [] \<and>
        (case storage garbage_loaded of None \<Rightarrow> True | Some x \<Rightarrow> passed_over excerpt x)"
    using cancel_by_handle [where s = garbage_loaded and P = excerpt] g(1) rg by blast
  then have e: "cancel garbage_loaded = garbage_loaded \<and> timeouts garbage_loaded = [] \<and>
        passed_over excerpt Garbage"
    using g(2) by simp
  from a b g ra rl rg c d e show ?thesis by blast
qed




text \<open>
  C8, a stored text where it fails.  An empty text is stored.  It is not JSON, but restoring does not get as far as reading
  it: the text is falsy, so nothing is caught and nothing is logged.
\<close>

theorem restore_empty_text_counterexample:
  "events (restoreScheduledNotifications excerpt 1000 (installed\<lparr>storage := Some Empty\<rparr>)) = [] \<and>
   restoreScheduledNotifications excerpt 1000 (installed\<lparr>storage := Some Empty\<rparr>)
     = installed\<lparr>storage := Some Empty\<rparr>"
  by (simp add: restore_empty installed_def)

text \<open>
  C8, as the code has it.  A stored text that is not empty and that \<^verbatim>\<open>JSON.parse\<close>
  rejects is caught and logged, and so is the JSON text \<^verbatim>\<open>null\<close> (reading its \<open>dateTime\<close>
  throws); an empty stored text is passed over without a log entry.  In all three cases
  nothing else changes: no timer is set, the handle and the pending time are as before,
  the stored text stays, and nothing is thrown to the caller.
\<close>

theorem restore_unreadable_logged:
  "(storage s = Some Garbage \<longrightarrow>
      restoreScheduledNotifications P now s
        = s\<lparr>events := events s @ [Log_restore_error SyntaxError]\<rparr>) \<and>
   (storage s = Some (Json JNull) \<longrightarrow>
      restoreScheduledNotifications P now s
        = s\<lparr>events := events s @ [Log_restore_error TypeError]\<rparr>) \<and>
   (storage s = Some Empty \<longrightarrow> restoreScheduledNotifications P now s = s)"
  by (simp add: restore_garbage restore_empty restore_throw)

theorem restore_unreadable_logged_witness:
  "storage (installed\<lparr>storage := Some Garbage\<rparr>) = Some Garbage \<and>
   restoreScheduledNotifications excerpt 1000 (installed\<lparr>storage := Some Garbage\<rparr>)
     = installed\<lparr>storage := Some Garbage, events := [Log_restore_error SyntaxError]\<rparr> \<and>
   storage (installed\<lparr>storage := Some (Json JNull)\<rparr>) = Some (Json JNull) \<and>
   restoreScheduledNotifications excerpt 1000 (installed\<lparr>storage := Some (Json JNull)\<rparr>)
     = installed\<lparr>storage := Some (Json JNull), events := [Log_restore_error TypeError]\<rparr> \<and>
   storage (installed\<lparr>storage := Some Empty\<rparr>) = Some Empty \<and>
   restoreScheduledNotifications excerpt 1000 (installed\<lparr>storage := Some Empty\<rparr>)
     = installed\<lparr>storage := Some Empty\<rparr>"
  using
    restore_unreadable_logged [where s = "installed\<lparr>storage := Some Garbage\<rparr>"
      and P = excerpt and now = 1000]
    restore_unreadable_logged [where s = "installed\<lparr>storage := Some (Json JNull)\<rparr>"
      and P = excerpt and now = 1000]
    restore_unreadable_logged [where s = "installed\<lparr>storage := Some Empty\<rparr>"
      and P = excerpt and now = 1000]
  by (simp add: installed_def)

text \<open>
  C9, a run where it fails.  The third run.  The delay of thirty days does not fit a signed 32-bit integer, so the
  platform lets the timer run at once (here at time 1000) and the reminder is shown.  The
  stored entry stays, with a \<open>dateTime\<close> that is still twenty-nine days away when the
  application is restarted at time 60000: restoring sets a timer for it again, and when
  that timer runs the reminder is shown a second time.
\<close>

theorem refire_after_restart_counterexample:
  "may_fire 1000 1 far_armed \<and>
   events far_fired = [Notice_scheduled (Date 2592000000), Shown (JStr ''hello'')] \<and>
   timer far_restarted = Some 2 \<and>
   map_of (timeouts far_restarted) 2 =
     Some \<lparr>delay = Some 2591940000, armed_at = 60000,
           callback = FromRestore
             (JObj [(''dateTime'', JStr ''1970-01-31T00:00:00.000Z''),
                    (''message'', JStr ''hello''),
                    (''scheduledAt'', JStr ''1970-01-01T00:00:00.000Z'')])\<rparr> \<and>
   may_fire 60000 2 far_restarted \<and>
   events (fire 2 far_restarted) =
     [Notice_scheduled (Date 2592000000), Shown (JStr ''hello''),
      Log_restored (Date 2592000000), Shown (JStr ''hello'')]"
  by (simp add: far_armed_value far_fired_value far_restarted_value may_fire_def far_timeout
      fire_def run_callback_def showNotification_def clearTimeout_def emit_def)

text \<open>
  C9, as the code has it.  In a state the plugin can be in, a reminder is scheduled with a
  delay of at most \<open>2147483647\<close> ms, on a platform whose date reader reads the ISO-8601
  text of the target time back as that time.  Its timer runs at a time \<open>tf\<close> at which the
  platform may run it, and leaves the stored entry behind.  When a later process is loaded
  at a time \<open>tr\<close> not before \<open>tf\<close>, the target time is not after \<open>tr\<close>: restoring removes
  the stored entry and sets no timer, so the reminder has been shown once.
\<close>

theorem no_refire_within_timer_range:
  "reachable P s \<Longrightarrow> now < t \<Longrightarrow> t - now \<le> 2147483647 \<Longrightarrow>
   Date_parse P (toISOString P t) = Some t \<Longrightarrow>
   s1 = snd (scheduleNotification P now now' (Date t) msg s) \<Longrightarrow>
   may_fire tf (next_handle s) s1 \<Longrightarrow> tf \<le> tr \<Longrightarrow>
   t \<le> tr \<and>
   storage (fire (next_handle s) s1) = storage s1 \<and>
   storage (onload P tr (fire (next_handle s) s1)) = None \<and>
   timer (onload P tr (fire (next_handle s) s1)) = None \<and>
   nextNotificationTime (onload P tr (fire (next_handle s) s1)) = None \<and>
   timeouts (onload P tr (fire (next_handle s) s1)) = [] \<and>
   events (onload P tr (fire (next_handle s) s1))
     = events s @ [Notice_scheduled (Date t), Shown (JStr msg)]"
proof -
  assume r: "reachable P s" and fut: "now < t" and range: "t - now \<le> 2147483647"
    and rt: "Date_parse P (toISOString P t) = Some t"
    and s1: "s1 = snd (scheduleNotification P now now' (Date t) msg s)"
    and mf: "may_fire tf (next_handle s) s1" and later: "tf \<le> tr"
  from r have ok: "handles_ok s" by (rule reachable_handles)
  have one: "timeouts s1 = [(next_handle s, \<lparr>delay = Some (t - now), armed_at = now,
                                              callback = FromSchedule msg\<rparr>)]"
    unfolding s1 by (rule schedule_future_single [OF ok fut])
  from mf one have "now + timeout_ms (Some (t - now)) \<le> tf"
    by (simp add: may_fire_def)
  moreover have "timeout_ms (Some (t - now)) = t - now"
    using fut range by (simp add: timeout_ms_in_range)
  ultimately have due: "t \<le> tr" using later by simp
  have kept: "storage (fire (next_handle s) s1) = storage s1"
    using one by (simp add: fire_def run_callback_def showNotification_def clearTimeout_def emit_def)
  from mf have mf': "may_fire tf (next_handle s)
      (snd (scheduleNotification P now now' (Date t) msg s))" by (simp add: s1)
  note eq = restart_after_fire [OF r fut range rt mf' later, folded s1]
  show ?thesis unfolding eq using due kept by simp
qed

theorem no_refire_within_timer_range_witness:
  "reachable excerpt example_loaded \<and> (0::int) < 1000 \<and> (1000::int) - 0 \<le> 2147483647 \<and>
   Date_parse excerpt (toISOString excerpt 1000) = Some 1000 \<and>
   example_armed = snd (scheduleNotification excerpt 0 0 (Date 1000) ''hello'' example_loaded) \<and>
   may_fire 1000 (next_handle example_loaded) example_armed \<and> (1000::int) \<le> 60000 \<and>
   storage (onload excerpt 60000 (fire (next_handle example_loaded) example_armed)) = None \<and>
   timer (onload excerpt 60000 (fire (next_handle example_loaded) example_armed)) = None \<and>
   timeouts (onload excerpt 60000 (fire (next_handle example_loaded) example_armed)) = [] \<and>
   events (onload excerpt 60000 (fire (next_handle example_loaded) example_armed))
     = [Notice_scheduled (Date 1000), Shown (JStr ''hello'')]"
proof -
  have rt: "Date_parse excerpt (toISOString excerpt 1000) = Some 1000"
    by (simp add: excerpt_def iso_excerpt_def)
  have mf: "may_fire 1000 (next_handle example_loaded) example_armed"
    by (simp add: example_loaded_value installed_def example_armed_value may_fire_def
        timeout_ms_in_range)
  have ev: "events example_loaded = []"
    by (simp add: example_loaded_value installed_def)
  from no_refire_within_timer_range [OF example_loaded_reachable _ _ rt example_armed_def mf,
      of 60000]
    example_loaded_reachable rt mf ev example_armed_def
  show ?thesis by simp
qed

text \<open>
  C10, a stored text where it fails.  A stored object whose \<open>dateTime\<close> is a number, not a date text.  The \<^verbatim>\<open>Date\<close> constructor
  takes a number as a time value, here one after the current time, so restoring sets a
  timer and keeps the stored entry.
\<close>

theorem restore_numeric_dateTime_counterexample:
  "restoreScheduledNotifications excerpt 1000
     (installed\<lparr>storage := Some (Json (JObj [(''dateTime'', JNum 4102444800000)]))\<rparr>)
   = \<lparr>timer = Some 1, nextNotificationTime = Some (Date 4102444800000),
      storage = Some (Json (JObj [(''dateTime'', JNum 4102444800000)])),
      timeouts = [(1, \<lparr>delay = Some 4102444799000, armed_at = 1000,
                        callback = FromRestore (JObj [(''dateTime'', JNum 4102444800000)])\<rparr>)],
      next_handle = 2,
      events = [Log_restored (Date 4102444800000)]\<rparr>"
  by (simp add: installed_def restoreScheduledNotifications_def restore_try_def TimeClip_def
      setTimeout_def emit_def Let_def)

text \<open>
  C10, as the code has it.  A stored text that reads as a JSON value other than \<^verbatim>\<open>null\<close>.
  If the \<^verbatim>\<open>Date\<close> constructor makes an invalid date from its \<open>dateTime\<close> (the property is
  missing, or it is a text the date reader rejects), the comparison with the current time
  is false, the stored entry is removed and nothing else changes, so no timer is set and
  nothing is logged or thrown.  If the \<^verbatim>\<open>Date\<close> constructor throws on its \<open>dateTime\<close> (an
  object with a property \<^verbatim>\<open>toString\<close>, or an array holding one), the exception is caught
  and logged and nothing else changes: the stored entry stays and no timer is set.
\<close>

theorem restore_invalid_dateTime_erased:
  "storage s = Some (Json data) \<Longrightarrow> get_prop data ''dateTime'' = Inr v \<Longrightarrow>
   (newDate P v = Inr InvalidDate \<longrightarrow>
      restoreScheduledNotifications P now s = s\<lparr>storage := None\<rparr>) \<and>
   (newDate P v = Inl e \<longrightarrow>
      restoreScheduledNotifications P now s = s\<lparr>events := events s @ [Log_restore_error e]\<rparr>)"
  by (simp add: restore_stale restore_date_throw)

theorem restore_invalid_dateTime_erased_witness:
  "storage (installed\<lparr>storage := Some (Json (JObj [(''dateTime'', JStr ''soon'')]))\<rparr>)
     = Some (Json (JObj [(''dateTime'', JStr ''soon'')])) \<and>
   get_prop (JObj [(''dateTime'', JStr ''soon'')]) ''dateTime'' = Inr (JStr ''soon'') \<and>
   newDate excerpt (JStr ''soon'') = Inr InvalidDate \<and>
   restoreScheduledNotifications excerpt 1000
     (installed\<lparr>storage := Some (Json (JObj [(''dateTime'', JStr ''soon'')]))\<rparr>) = installed \<and>
   storage (installed\<lparr>storage :=
       Some (Json (JObj [(''dateTime'', JObj [(''toString'', JNull)])]))\<rparr>)
     = Some (Json (JObj [(''dateTime'', JObj [(''toString'', JNull)])])) \<and>
   get_prop (JObj [(''dateTime'', JObj [(''toString'', JNull)])]) ''dateTime''
     = Inr (JObj [(''toString'', JNull)]) \<and>
   newDate excerpt (JObj [(''toString'', JNull)]) = Inl TypeError \<and>
   restoreScheduledNotifications excerpt 1000
     (installed\<lparr>storage := Some (Json (JObj [(''dateTime'', JObj [(''toString'', JNull)])]))\<rparr>)
   = installed\<lparr>storage := Some (Json (JObj [(''dateTime'', JObj [(''toString'', JNull)])])),
               events := [Log_restore_error TypeError]\<rparr>"
  using
    restore_invalid_dateTime_erased
      [where s = "installed\<lparr>storage := Some (Json (JObj [(''dateTime'', JStr ''soon'')]))\<rparr>"
        and data = "JObj [(''dateTime'', JStr ''soon'')]" and v = "JStr ''soon''"
        and P = excerpt and now = 1000]
    restore_invalid_dateTime_erased
      [where s = "installed\<lparr>storage :=
            Some (Json (JObj [(''dateTime'', JObj [(''toString'', JNull)])]))\<rparr>"
        and data = "JObj [(''dateTime'', JObj [(''toString'', JNull)])]"
        and v = "JObj [(''toString'', JNull)]"
        and P = excerpt and now = 1000 and e = TypeError]
  by (simp add: installed_def excerpt_def iso_excerpt_def of_time_def)

end
